theory Spec2Isabelle
  imports Main
begin

section \<open>Python values\<close>

text \<open>
  The installer manager of \<^verbatim>\<open>src/backend/installer.py\<close> works on values that come
  out of a YAML document (the manifest) and on the configuration dictionary of a bottle.
  They are modelled by one type of dynamically typed values. A dictionary is an
  association list in insertion order, as Python iterates it; its keys are strings and
  are pairwise distinct, as they are in a Python dictionary. Floating point numbers are
  not part of the model.
\<close>

datatype pyval =
    PNone
  | PBool bool
  | PInt int
  | PStr string
  | PList "pyval list"
  | PDict "(string \<times> pyval) list"

type_synonym dict = "(string \<times> pyval) list"

text \<open>The exceptions that the modelled code, or a collaborator it calls, can raise.\<close>

datatype py_error =
    AttributeError
  | KeyError
  | TypeError
  | OSError
  | URLError
  | UnicodeDecodeError
  | YAMLError

text \<open>Truth value testing, as \<^verbatim>\<open>if x:\<close> and \<^verbatim>\<open>x and y\<close> do it.\<close>

fun truthy :: "pyval \<Rightarrow> bool" where
  "truthy PNone = False"
| "truthy (PBool b) = b"
| "truthy (PInt i) = (i \<noteq> 0)"
| "truthy (PStr s) = (s \<noteq> [])"
| "truthy (PList xs) = (xs \<noteq> [])"
| "truthy (PDict d) = (d \<noteq> [])"

text \<open>\<^verbatim>\<open>d.get(k)\<close> on a dictionary: the value, or \<^verbatim>\<open>None\<close> for a missing key.\<close>

definition dict_get :: "dict \<Rightarrow> string \<Rightarrow> pyval" where
  "dict_get d k = (case map_of d k of None \<Rightarrow> PNone | Some v \<Rightarrow> v)"

text \<open>
  \<^verbatim>\<open>x[k]\<close> with a string \<open>k\<close>: a dictionary raises \<^verbatim>\<open>KeyError\<close> for a missing
  key; every other value of the model raises \<^verbatim>\<open>TypeError\<close> (not subscriptable, or
  indices must be integers).
\<close>

fun py_subscript :: "pyval \<Rightarrow> string \<Rightarrow> py_error + pyval" where
  "py_subscript (PDict d) k = (case map_of d k of None \<Rightarrow> Inl KeyError | Some v \<Rightarrow> Inr v)"
| "py_subscript _ k = Inl TypeError"

text \<open>Decimal digits of a natural number, for \<^verbatim>\<open>str\<close> of an integer.\<close>

function dec_of_nat :: "nat \<Rightarrow> string" where
  "dec_of_nat n =
     (if n < 10 then [''0123456789'' ! n]
      else dec_of_nat (n div 10) @ [''0123456789'' ! (n mod 10)])"
  by pat_completeness auto
termination
  by (relation "measure (\<lambda>n. n)") auto

text \<open>
  \<^verbatim>\<open>str(x)\<close>, which is what \<^verbatim>\<open>"%s" % x\<close> and an f-string \<^verbatim>\<open>f"{x}"\<close> insert. The text
  of a list or of a dictionary is Python's \<^verbatim>\<open>repr\<close>; no property below depends on it,
  and it is taken as a parameter.
\<close>

fun py_str :: "(pyval \<Rightarrow> string) \<Rightarrow> pyval \<Rightarrow> string" where
  "py_str r PNone = ''None''"
| "py_str r (PBool b) = (if b then ''True'' else ''False'')"
| "py_str r (PInt i) = (if i < 0 then CHR ''-'' # dec_of_nat (nat (- i)) else dec_of_nat (nat i))"
| "py_str r (PStr s) = s"
| "py_str r (PList xs) = r (PList xs)"
| "py_str r (PDict d) = r (PDict d)"

text \<open>
  Equality \<^verbatim>\<open>x == y\<close>: a truth value equals the integer 0 or 1, lists are compared
  element by element, dictionaries as finite maps (the order of their entries does not
  matter), and values of different kinds are unequal.
\<close>

fun py_eq :: "pyval \<Rightarrow> pyval \<Rightarrow> bool"
  and py_eq_list :: "pyval list \<Rightarrow> pyval list \<Rightarrow> bool"
  and py_sub_dict :: "dict \<Rightarrow> dict \<Rightarrow> bool" where
  "py_eq PNone y = (y = PNone)"
| "py_eq (PBool a) y =
     (case y of PBool b \<Rightarrow> a = b | PInt j \<Rightarrow> j = (if a then 1 else 0) | _ \<Rightarrow> False)"
| "py_eq (PInt i) y =
     (case y of PBool b \<Rightarrow> i = (if b then 1 else 0) | PInt j \<Rightarrow> i = j | _ \<Rightarrow> False)"
| "py_eq (PStr s) y = (y = PStr s)"
| "py_eq (PList xs) y = (case y of PList ys \<Rightarrow> py_eq_list xs ys | _ \<Rightarrow> False)"
| "py_eq (PDict d) y =
     (case y of PDict e \<Rightarrow> length d = length e \<and> py_sub_dict d e | _ \<Rightarrow> False)"
| "py_eq_list [] ys = (ys = [])"
| "py_eq_list (x # xs) ys =
     (case ys of [] \<Rightarrow> False | y # ys' \<Rightarrow> py_eq x y \<and> py_eq_list xs ys')"
| "py_sub_dict [] e = True"
| "py_sub_dict (kv # d) e =
     ((case map_of e (fst kv) of None \<Rightarrow> False | Some v \<Rightarrow> py_eq (snd kv) v)
      \<and> py_sub_dict d e)"

text \<open>Lists and dictionaries are not hashable: they cannot be looked up in a dictionary.\<close>

fun hashable :: "pyval \<Rightarrow> bool" where
  "hashable (PList xs) = False"
| "hashable (PDict d) = False"
| "hashable _ = True"

fun starts_with :: "string \<Rightarrow> string \<Rightarrow> bool" where
  "starts_with s [] = True"
| "starts_with [] (c # t) = False"
| "starts_with (a # s) (c # t) = (a = c \<and> starts_with s t)"

fun str_contains :: "string \<Rightarrow> string \<Rightarrow> bool" where
  "str_contains [] t = (t = [])"
| "str_contains (a # s) t = (starts_with (a # s) t \<or> str_contains s t)"

text \<open>
  Membership \<^verbatim>\<open>x in c\<close>: a list is searched with \<^verbatim>\<open>==\<close>, a dictionary by key, a
  string for a substring (and only a string may be looked for in a string); \<^verbatim>\<open>None\<close>,
  truth values and integers are not containers.
\<close>

fun py_in :: "pyval \<Rightarrow> pyval \<Rightarrow> py_error + bool" where
  "py_in x (PList ys) = Inr (list_ex (\<lambda>y. py_eq y x) ys)"
| "py_in x (PDict d) =
     (if hashable x then Inr (case x of PStr k \<Rightarrow> map_of d k \<noteq> None | _ \<Rightarrow> False)
      else Inl TypeError)"
| "py_in x (PStr s) = (case x of PStr t \<Rightarrow> Inr (str_contains s t) | _ \<Rightarrow> Inl TypeError)"
| "py_in x _ = Inl TypeError"

text \<open>
  The elements a \<^verbatim>\<open>for\<close> loop visits: those of a list, the keys of a dictionary, the
  characters of a string; nothing else is iterable.
\<close>

fun py_iter :: "pyval \<Rightarrow> py_error + pyval list" where
  "py_iter (PList xs) = Inr xs"
| "py_iter (PDict d) = Inr (map (\<lambda>kv. PStr (fst kv)) d)"
| "py_iter (PStr s) = Inr (map (\<lambda>c. PStr [c]) s)"
| "py_iter _ = Inl TypeError"

text \<open>\<^verbatim>\<open>d.get(x)\<close> for any value \<open>x\<close>: an unhashable key raises.\<close>

definition dict_get_val :: "dict \<Rightarrow> pyval \<Rightarrow> py_error + pyval" where
  "dict_get_val d x =
     (if hashable x then Inr (case x of PStr k \<Rightarrow> dict_get d k | _ \<Rightarrow> PNone)
      else Inl TypeError)"

section \<open>The world outside the installer manager\<close>

text \<open>
  Calls that leave the module are recorded, in order, as events. The manager's calls
  (\<^verbatim>\<open>install_dxvk\<close>, \<^verbatim>\<open>install_vkd3d\<close>, \<^verbatim>\<open>update_configuration\<close>,
  \<^verbatim>\<open>async_install_dependency\<close>) and \<^verbatim>\<open>Runner().run_executable\<close> all receive the
  configuration of the one bottle being installed into; the events leave it out. These
  collaborators are not part of the sources: a call to one of them is taken to return,
  and to leave the configuration dictionary that this module reads as it is.
\<close>

datatype event =
    LogError string
  | UrlOpen string
  | MakeDirs string
  | UrlRetrieve string string
  | AsyncInstallDependency pyval pyval
  | Download string pyval pyval pyval pyval
  | RunExecutable string pyval pyval
  | InstallDxvk
  | InstallVkd3d
  | UpdateConfiguration pyval pyval string
  | FileOpened string
  | FileClosed string
  | IdleAdd

datatype fnode = Dir | File string

text \<open>
  The state that a run changes: the events so far, the file system (a path is absent, a
  directory, or a regular file with its content), and the number of calls made so far to
  the component manager's \<^verbatim>\<open>download\<close>.
\<close>

record world =
  trace :: "event list"
  files :: "string \<Rightarrow> fnode option"
  download_calls :: nat

text \<open>
  What a run reads from outside and cannot change: the constants of
  \<^verbatim>\<open>globals.py\<close>, the catalog of supported dependencies, the process environment,
  the clock, and the answers of the network, of the component manager and of the file
  system. \<open>download env k\<close> tells whether the \<open>k\<close>-th call of
  \<^verbatim>\<open>download\<close> succeeds. \<open>urlopen\<close> raises or gives a response whose
  \<^verbatim>\<open>read()\<close> raises or gives the bytes. \<open>urlretrieve\<close> gives the content it
  stored at the destination, or raises, and then tells what it left at the destination:
  nothing, or the part it had received. \<open>makedirs_error env p\<close> is the error that
  \<^verbatim>\<open>os.makedirs(p)\<close> raises, if it raises.

  The desktop entry is written through Python's buffered text file: an \<^verbatim>\<open>f.write\<close>
  puts its text into a buffer, and the buffer reaches the file when it is flushed, which
  happens inside an \<^verbatim>\<open>f.write\<close> when the buffer is full, and when the file is closed.
  \<open>write_fails env k\<close> tells whether the \<open>k\<close>-th \<^verbatim>\<open>f.write\<close> raises (its flush
  fails), \<open>close_fails env\<close> whether closing the file raises, and
  \<open>stored_bytes env\<close> how many bytes of the text handed to the file have reached it
  when one of the two has failed.

  The timestamp is a floating point number in the source; the model keeps its type
  abstract and takes its \<^verbatim>\<open>str\<close> as a parameter.
\<close>

record 't env =
  repo_installers :: string
  path_temp :: string
  path_applications :: string
  path_bottles :: string
  get_bottle_path :: "dict \<Rightarrow> string"
  supported_dependencies :: dict
  py_repr :: "pyval \<Rightarrow> string"
  environ :: "string list"
  check_connection :: bool
  urlopen :: "string \<Rightarrow> py_error + (py_error + string)"
  decode_utf8 :: "string \<Rightarrow> py_error + string"
  yaml_safe_load :: "string \<Rightarrow> py_error + pyval"
  urlretrieve :: "string \<Rightarrow> py_error \<times> string option + string"
  makedirs_error :: "string \<Rightarrow> py_error option"
  download :: "nat \<Rightarrow> bool"
  open_fails :: bool
  write_fails :: "nat \<Rightarrow> bool"
  close_fails :: bool
  stored_bytes :: nat
  now_timestamp :: 't
  str_timestamp :: "'t \<Rightarrow> string"

type_synonym 'a outcome = "(py_error + 'a) \<times> world"

definition emit :: "event \<Rightarrow> world \<Rightarrow> world" where
  "emit e w = w\<lparr>trace := trace w @ [e]\<rparr>"

text \<open>The events of a run that started in \<open>w\<close> and ended in \<open>w'\<close>.\<close>

definition events_since :: "world \<Rightarrow> world \<Rightarrow> event list" where
  "events_since w w' = drop (length (trace w)) (trace w')"

text \<open>Sequencing of statements: an exception skips what follows and keeps the state.\<close>

definition and_then :: "unit outcome \<Rightarrow> (world \<Rightarrow> unit outcome) \<Rightarrow> unit outcome" where
  "and_then r f = (case r of (Inl e, w) \<Rightarrow> (Inl e, w) | (Inr u, w) \<Rightarrow> f w)"

section \<open>The installer manager\<close>

text \<open>The text that string formatting inserts for a value.\<close>

definition fmt :: "'t env \<Rightarrow> pyval \<Rightarrow> string" where
  "fmt env v = py_str (py_repr env) v"

subsection \<open>\<^verbatim>\<open>get_installer\<close>\<close>

definition manifest_url :: "'t env \<Rightarrow> pyval \<Rightarrow> pyval \<Rightarrow> string" where
  "manifest_url env installer_name installer_category =
     repo_installers env @ ''/'' @ fmt env installer_category @ ''/''
       @ fmt env installer_name @ ''.yml''"

text \<open>
  The body of the \<^verbatim>\<open>try\<close> block: open the URL, read the response, and return it decoded
  as text (\<open>plain\<close>) or parsed as YAML. Each of these steps may raise.
\<close>

definition fetch_manifest :: "'t env \<Rightarrow> pyval \<Rightarrow> pyval \<Rightarrow> bool \<Rightarrow> py_error + pyval" where
  "fetch_manifest env installer_name installer_category plain =
     (case urlopen env (manifest_url env installer_name installer_category) of
        Inl e \<Rightarrow> Inl e
      | Inr response \<Rightarrow>
          (case response of
             Inl e \<Rightarrow> Inl e
           | Inr raw \<Rightarrow>
               if plain then
                 (case decode_utf8 env raw of Inl e \<Rightarrow> Inl e | Inr s \<Rightarrow> Inr (PStr s))
               else yaml_safe_load env raw))"

text \<open>
  \<^verbatim>\<open>get_installer\<close>: without a connection the result is \<^verbatim>\<open>False\<close>; with one, the bare
  \<^verbatim>\<open>except:\<close> turns every exception of the \<^verbatim>\<open>try\<close> block into a logged error and the
  result \<^verbatim>\<open>False\<close>.
\<close>

definition get_installer ::
  "'t env \<Rightarrow> pyval \<Rightarrow> pyval \<Rightarrow> bool \<Rightarrow> world \<Rightarrow> pyval outcome" where
  "get_installer env installer_name installer_category plain w =
     (if check_connection env then
        (let w1 = emit (UrlOpen (manifest_url env installer_name installer_category)) w in
         case fetch_manifest env installer_name installer_category plain of
           Inr v \<Rightarrow> (Inr v, w1)
         | Inl e \<Rightarrow>
             (Inr (PBool False),
              emit (LogError (''Cannot fetch manifest for '' @ fmt env installer_name @ ''.'')) w1))
      else (Inr (PBool False), w))"

subsection \<open>\<^verbatim>\<open>__download_icon\<close>\<close>

definition icon_url :: "'t env \<Rightarrow> dict \<Rightarrow> dict \<Rightarrow> string" where
  "icon_url env executable manifest =
     repo_installers env @ ''/data/'' @ fmt env (dict_get manifest ''Name'') @ ''/''
       @ fmt env (dict_get executable ''icon'')"

definition bottle_icons_path :: "'t env \<Rightarrow> dict \<Rightarrow> string" where
  "bottle_icons_path env configuration = get_bottle_path env configuration @ ''/icons''"

definition icon_path :: "'t env \<Rightarrow> dict \<Rightarrow> dict \<Rightarrow> string" where
  "icon_path env configuration executable =
     bottle_icons_path env configuration @ ''/'' @ fmt env (dict_get executable ''icon'')"

definition path_exists :: "world \<Rightarrow> string \<Rightarrow> bool" where
  "path_exists w p = (files w p \<noteq> None)"

definition path_isfile :: "world \<Rightarrow> string \<Rightarrow> bool" where
  "path_isfile w p = (case files w p of Some (File c) \<Rightarrow> True | _ \<Rightarrow> False)"

text \<open>
  \<^verbatim>\<open>os.makedirs(p)\<close>: the call is made; it creates the directory, or raises and
  creates nothing at \<open>p\<close>.
\<close>

definition makedirs :: "'t env \<Rightarrow> string \<Rightarrow> world \<Rightarrow> unit outcome" where
  "makedirs env p w =
     (case makedirs_error env p of
        Some e \<Rightarrow> (Inl e, emit (MakeDirs p) w)
      | None \<Rightarrow> (Inr (), (emit (MakeDirs p) w)\<lparr>files := (files w)(p \<mapsto> Dir)\<rparr>))"

text \<open>What \<^verbatim>\<open>urlretrieve\<close> leaves at the destination \<open>p\<close> when it raises.\<close>

definition leave_partial :: "string \<Rightarrow> string option \<Rightarrow> world \<Rightarrow> world" where
  "leave_partial p part w =
     (case part of None \<Rightarrow> w | Some c \<Rightarrow> w\<lparr>files := (files w)(p \<mapsto> File c)\<rparr>)"

definition retrieve_icon :: "'t env \<Rightarrow> dict \<Rightarrow> dict \<Rightarrow> dict \<Rightarrow> world \<Rightarrow> unit outcome" where
  "retrieve_icon env configuration executable manifest w =
     (if \<not> path_isfile w (icon_path env configuration executable) then
        (let w1 = emit (UrlRetrieve (icon_url env executable manifest)
                          (icon_path env configuration executable)) w
         in case urlretrieve env (icon_url env executable manifest) of
              Inl (e, part) \<Rightarrow>
                (Inl e, leave_partial (icon_path env configuration executable) part w1)
            | Inr content \<Rightarrow>
                (Inr (), w1\<lparr>files := (files w1)
                              (icon_path env configuration executable \<mapsto> File content)\<rparr>))
      else (Inr (), w))"

definition download_icon :: "'t env \<Rightarrow> dict \<Rightarrow> dict \<Rightarrow> dict \<Rightarrow> world \<Rightarrow> unit outcome" where
  "download_icon env configuration executable manifest w =
     and_then (if \<not> path_exists w (bottle_icons_path env configuration)
               then makedirs env (bottle_icons_path env configuration) w else (Inr (), w))
       (retrieve_icon env configuration executable manifest)"

subsection \<open>\<^verbatim>\<open>__install_dependencies\<close>\<close>

fun dependencies_loop :: "'t env \<Rightarrow> dict \<Rightarrow> pyval list \<Rightarrow> world \<Rightarrow> unit outcome" where
  "dependencies_loop env configuration [] w = (Inr (), w)"
| "dependencies_loop env configuration (dep # deps) w =
     (case py_in dep (dict_get configuration ''Installed_Dependencies'') of
        Inl e \<Rightarrow> (Inl e, w)
      | Inr present \<Rightarrow>
          if present then dependencies_loop env configuration deps w
          else
            (case dict_get_val (supported_dependencies env) dep of
               Inl e \<Rightarrow> (Inl e, w)
             | Inr entry \<Rightarrow>
                 dependencies_loop env configuration deps
                   (emit (AsyncInstallDependency dep entry) w)))"

definition install_dependencies :: "'t env \<Rightarrow> dict \<Rightarrow> pyval \<Rightarrow> world \<Rightarrow> unit outcome" where
  "install_dependencies env configuration dependencies w =
     (case py_iter dependencies of
        Inl e \<Rightarrow> (Inl e, w)
      | Inr deps \<Rightarrow> dependencies_loop env configuration deps w)"

subsection \<open>\<^verbatim>\<open>__perform_steps\<close>\<close>

text \<open>\<^verbatim>\<open>st["action"] in ["install_exe", "install_msi"]\<close>\<close>

definition install_action :: "pyval \<Rightarrow> bool" where
  "install_action a = list_ex (\<lambda>y. py_eq y a) [PStr ''install_exe'', PStr ''install_msi'']"

definition download_event :: "dict \<Rightarrow> event" where
  "download_event st =
     Download ''installer'' (dict_get st ''url'') (dict_get st ''file_name'')
       (dict_get st ''rename'') (dict_get st ''file_checksum'')"

definition run_event :: "'t env \<Rightarrow> dict \<Rightarrow> event" where
  "run_event env st =
     RunExecutable
       (path_temp env @ ''/'' @ fmt env (if truthy (dict_get st ''rename'')
                                           then dict_get st ''rename''
                                           else dict_get st ''file_name''))
       (dict_get st ''arguments'') (dict_get st ''environment'')"

fun steps_loop :: "'t env \<Rightarrow> pyval list \<Rightarrow> world \<Rightarrow> unit outcome" where
  "steps_loop env [] w = (Inr (), w)"
| "steps_loop env (step # steps) w =
     (case py_subscript step ''action'' of
        Inl e \<Rightarrow> (Inl e, w)
      | Inr a \<Rightarrow>
          if install_action a then
            (case step of
               PDict st \<Rightarrow>
                 (let ok = download env (download_calls w);
                      w1 = (emit (download_event st) w)\<lparr>download_calls := Suc (download_calls w)\<rparr>
                  in if ok then steps_loop env steps (emit (run_event env st) w1)
                     else steps_loop env steps w1)
             | _ \<Rightarrow> (Inl AttributeError, w))
          else steps_loop env steps w)"

definition perform_steps :: "'t env \<Rightarrow> dict \<Rightarrow> pyval \<Rightarrow> world \<Rightarrow> unit outcome" where
  "perform_steps env configuration steps w =
     (case py_iter steps of
        Inl e \<Rightarrow> (Inl e, w)
      | Inr sts \<Rightarrow> steps_loop env sts w)"

subsection \<open>\<^verbatim>\<open>__set_parameters\<close>\<close>

text \<open>
  The two conditions, as written in the source: \<^verbatim>\<open>and\<close> reads the configuration only
  when the manifest's value is true, and the subscript may raise.
  \<^verbatim>\<open>parameters.get("dxvk") and not configuration.get("Parameters")["dxvk"]\<close> and
  \<^verbatim>\<open>parameters.get("vkd3d") and configuration.get("Parameters")["vkd3d"]\<close>.
\<close>

definition dxvk_condition :: "dict \<Rightarrow> dict \<Rightarrow> py_error + bool" where
  "dxvk_condition configuration parameters =
     (if truthy (dict_get parameters ''dxvk'') then
        (case py_subscript (dict_get configuration ''Parameters'') ''dxvk'' of
           Inl e \<Rightarrow> Inl e
         | Inr v \<Rightarrow> Inr (\<not> truthy v))
      else Inr False)"

definition vkd3d_condition :: "dict \<Rightarrow> dict \<Rightarrow> py_error + bool" where
  "vkd3d_condition configuration parameters =
     (if truthy (dict_get parameters ''vkd3d'') then
        (case py_subscript (dict_get configuration ''Parameters'') ''vkd3d'' of
           Inl e \<Rightarrow> Inl e
         | Inr v \<Rightarrow> Inr (truthy v))
      else Inr False)"

text \<open>\<^verbatim>\<open>for param in parameters: update_configuration(key=param, value=parameters[param], ...)\<close>\<close>

fun parameters_loop :: "dict \<Rightarrow> string list \<Rightarrow> world \<Rightarrow> unit outcome" where
  "parameters_loop parameters [] w = (Inr (), w)"
| "parameters_loop parameters (param # params) w =
     (case py_subscript (PDict parameters) param of
        Inl e \<Rightarrow> (Inl e, w)
      | Inr v \<Rightarrow>
          parameters_loop parameters params
            (emit (UpdateConfiguration (PStr param) v ''Parameters'') w))"

definition set_parameters :: "dict \<Rightarrow> pyval \<Rightarrow> world \<Rightarrow> unit outcome" where
  "set_parameters configuration parameters w =
     (case parameters of
        PDict ps \<Rightarrow>
          (case dxvk_condition configuration ps of
             Inl e \<Rightarrow> (Inl e, w)
           | Inr c1 \<Rightarrow>
               (let w1 = (if c1 then emit InstallDxvk w else w) in
                case vkd3d_condition configuration ps of
                  Inl e \<Rightarrow> (Inl e, w1)
                | Inr c2 \<Rightarrow>
                    (let w2 = (if c2 then emit InstallVkd3d w1 else w1) in
                     parameters_loop ps (map fst ps) w2)))
      | _ \<Rightarrow> (Inl AttributeError, w))"

subsection \<open>\<^verbatim>\<open>__set_executable_arguments\<close>\<close>

definition set_executable_arguments :: "dict \<Rightarrow> dict \<Rightarrow> world \<Rightarrow> unit outcome" where
  "set_executable_arguments configuration executable w =
     (Inr (), emit (UpdateConfiguration (dict_get executable ''file'')
                      (dict_get executable ''arguments'') ''Programs'') w)"

subsection \<open>\<^verbatim>\<open>__create_desktop_entry\<close>\<close>

definition desktop_file :: "'t env \<Rightarrow> dict \<Rightarrow> dict \<Rightarrow> 't \<Rightarrow> string" where
  "desktop_file env configuration manifest timestamp =
     path_applications env @ ''/'' @ fmt env (dict_get configuration ''Name'') @ ''--''
       @ fmt env (dict_get manifest ''Name'') @ ''--'' @ str_timestamp env timestamp
       @ ''.desktop''"

definition ex_path :: "'t env \<Rightarrow> dict \<Rightarrow> dict \<Rightarrow> string" where
  "ex_path env configuration executable =
     path_bottles env @ ''/'' @ fmt env (dict_get configuration ''Path'') @ ''/drive_c/''
       @ fmt env (dict_get executable ''path'') @ ''/'' @ fmt env (dict_get executable ''file'')"

definition newline :: string where
  "newline = [CHR 0x0A]"

definition quote :: string where
  "quote = [CHR 0x27]"

text \<open>The strings that the \<^verbatim>\<open>f.write\<close> calls write, one per call, in order.\<close>

definition entry_lines :: "'t env \<Rightarrow> dict \<Rightarrow> dict \<Rightarrow> dict \<Rightarrow> string list" where
  "entry_lines env configuration manifest executable =
     [''[Desktop Entry]'' @ newline,
      ''Name='' @ fmt env (dict_get executable ''name'') @ newline,
      ''Exec=bottles -e '' @ quote @ ex_path env configuration executable @ quote
        @ '' -b '' @ quote @ fmt env (dict_get configuration ''Name'') @ quote @ newline,
      ''Type=Application'' @ newline,
      ''Terminal=false'' @ newline,
      ''Categories=Application;'' @ newline,
      (if truthy (dict_get executable ''icon'')
       then ''Icon='' @ icon_path env configuration executable @ newline
       else ''Icon=com.usebottles.bottles''),
      ''Comment='' @ fmt env (dict_get manifest ''Description'') @ newline,
      ''Actions=Configure;'' @ newline,
      ''[Desktop Action Configure]'' @ newline,
      ''Name=Configure in Bottles'' @ newline,
      ''Exec=bottles -b '' @ quote @ fmt env (dict_get configuration ''Name'') @ quote @ newline]"

text \<open>\<^verbatim>\<open>open(p, "w")\<close> creates the file, or empties the one that is there.\<close>

definition open_w :: "string \<Rightarrow> world \<Rightarrow> world" where
  "open_w p w = (emit (FileOpened p) w)\<lparr>files := (files w)(p \<mapsto> File [])\<rparr>"

text \<open>
  The body of the \<^verbatim>\<open>with\<close> statement, from the \<open>k\<close>-th write on: whether every
  \<^verbatim>\<open>f.write\<close> returned, and the text handed to the file. A write that raises ends the
  body; its own text is in the buffer by then.
\<close>

fun write_all :: "'t env \<Rightarrow> nat \<Rightarrow> string list \<Rightarrow> string \<Rightarrow> bool \<times> string" where
  "write_all env k [] buf = (True, buf)"
| "write_all env k (s # ss) buf =
     (if write_fails env k then (False, buf @ s)
      else write_all env (Suc k) ss (buf @ s))"

text \<open>
  Leaving the \<^verbatim>\<open>with\<close> statement closes the file, on either way out, and does nothing
  else. When every write returned and the close succeeds, the file holds the whole text.
  When a write or the close raised, the file is closed all the same, the error reaches
  the caller, and the file holds the bytes that had reached it.
\<close>

definition close_file :: "'t env \<Rightarrow> string \<Rightarrow> bool \<times> string \<Rightarrow> world \<Rightarrow> unit outcome" where
  "close_file env p written w =
     (if fst written \<and> \<not> close_fails env
      then (Inr (), emit (FileClosed p) (w\<lparr>files := (files w)(p \<mapsto> File (snd written))\<rparr>))
      else (Inl OSError,
            emit (FileClosed p)
              (w\<lparr>files := (files w)(p \<mapsto> File (take (stored_bytes env) (snd written)))\<rparr>)))"

definition create_desktop_entry ::
  "'t env \<Rightarrow> dict \<Rightarrow> dict \<Rightarrow> dict \<Rightarrow> world \<Rightarrow> unit outcome" where
  "create_desktop_entry env configuration manifest executable w =
     (let p = desktop_file env configuration manifest (now_timestamp env) in
      if ''FLATPAK_ID'' \<in> set (environ env) then (Inr (), w)
      else if open_fails env then (Inl OSError, w)
      else close_file env p
             (write_all env 0 (entry_lines env configuration manifest executable) [])
             (open_w p w))"

subsection \<open>\<^verbatim>\<open>__async_install\<close>\<close>

text \<open>
  The installer is the pair of a name and its catalog entry. The manifest is whatever
  \<^verbatim>\<open>get_installer\<close> returned; \<^verbatim>\<open>.get\<close> exists on a dictionary only, so the first
  \<^verbatim>\<open>manifest.get\<close> raises \<^verbatim>\<open>AttributeError\<close> on anything else, and so does the first
  \<^verbatim>\<open>executable.get\<close>.
\<close>

definition install_body ::
  "'t env \<Rightarrow> dict \<Rightarrow> dict \<Rightarrow> dict \<Rightarrow> bool \<Rightarrow> world \<Rightarrow> unit outcome" where
  "install_body env configuration manifest executable has_widget w =
     and_then (if truthy (dict_get executable ''icon'')
               then download_icon env configuration executable manifest w else (Inr (), w))
    (\<lambda>w. and_then (if truthy (dict_get manifest ''Dependencies'')
               then install_dependencies env configuration (dict_get manifest ''Dependencies'') w
               else (Inr (), w))
    (\<lambda>w. and_then (if truthy (dict_get manifest ''Steps'')
               then perform_steps env configuration (dict_get manifest ''Steps'') w
               else (Inr (), w))
    (\<lambda>w. and_then (if truthy (dict_get manifest ''Parameters'')
               then set_parameters configuration (dict_get manifest ''Parameters'') w
               else (Inr (), w))
    (\<lambda>w. and_then (if truthy (dict_get executable ''arguments'')
               then set_executable_arguments configuration executable w else (Inr (), w))
    (\<lambda>w. and_then (create_desktop_entry env configuration manifest executable w)
    (\<lambda>w. if has_widget then (Inr (), emit IdleAdd w) else (Inr (), w)))))))"

definition async_install ::
  "'t env \<Rightarrow> dict \<Rightarrow> pyval \<times> pyval \<Rightarrow> bool \<Rightarrow> world \<Rightarrow> unit outcome" where
  "async_install env configuration installer has_widget w =
     (case py_subscript (snd installer) ''Category'' of
        Inl e \<Rightarrow> (Inl e, w)
      | Inr category \<Rightarrow>
          (case get_installer env (fst installer) category False w of
             (Inl e, w1) \<Rightarrow> (Inl e, w1)
           | (Inr fetched, w1) \<Rightarrow>
               (case fetched of
                  PDict manifest \<Rightarrow>
                    (case dict_get manifest ''Executable'' of
                       PDict executable \<Rightarrow>
                         install_body env configuration manifest executable has_widget w1
                     | _ \<Rightarrow> (Inl AttributeError, w1))
                | _ \<Rightarrow> (Inl AttributeError, w1))))"

section \<open>Auxiliary notions and sample inputs\<close>

text \<open>A step that \<^verbatim>\<open>__perform_steps\<close> acts on: a dictionary whose action is an install action.\<close>

definition is_install_step :: "pyval \<Rightarrow> bool" where
  "is_install_step step =
     (case py_subscript step ''action'' of Inl e \<Rightarrow> False | Inr a \<Rightarrow> install_action a)"

text \<open>A step as the manifest's data model has it: a dictionary with an action.\<close>

definition has_action :: "pyval \<Rightarrow> bool" where
  "has_action step = (case py_subscript step ''action'' of Inl e \<Rightarrow> False | Inr a \<Rightarrow> True)"

fun the_dict :: "pyval \<Rightarrow> dict" where
  "the_dict (PDict d) = d"
| "the_dict _ = []"

text \<open>
  The number of \<^verbatim>\<open>f.write\<close> calls that succeed before the first one that raises, among
  the calls numbered \<open>k\<close>, \<open>k + 1\<close>, ..., \<open>k + n - 1\<close>.
\<close>

definition writes_done :: "'t env \<Rightarrow> nat \<Rightarrow> nat \<Rightarrow> nat" where
  "writes_done env k n = length (takeWhile (\<lambda>i. \<not> write_fails env i) [k..<k + n])"

definition empty_world :: world where
  "empty_world = \<lparr>trace = [], files = (\<lambda>p. None), download_calls = 0\<rparr>"

text \<open>
  A sample environment: connected, every fetch, every creation of a directory, every
  write and the close succeed, every download but the second (call number 1) succeeds,
  no sandbox marker. Its timestamps are given by
  their text.
\<close>

definition sample_env :: "string env" where
  "sample_env =
     \<lparr>repo_installers = ''https://repo/installers'',
      path_temp = ''/tmp/bottles'',
      path_applications = ''/home/u/.local/share/applications'',
      path_bottles = ''/home/u/bottles'',
      get_bottle_path = (\<lambda>c. ''/home/u/bottles/'' @ py_str (\<lambda>v. []) (dict_get c ''Path'')),
      supported_dependencies = [(''vcredist2019'', PDict [(''Description'', PStr ''runtime'')])],
      py_repr = (\<lambda>v. []),
      environ = [''HOME'', ''PATH''],
      check_connection = True,
      urlopen = (\<lambda>u. Inr (Inr ''Name: Game'')),
      decode_utf8 = (\<lambda>b. Inr b),
      yaml_safe_load = (\<lambda>b. Inr (PDict [(''Name'', PStr ''Game'')])),
      urlretrieve = (\<lambda>u. Inr ''icon-bytes''),
      makedirs_error = (\<lambda>p. None),
      download = (\<lambda>k. k \<noteq> 1),
      open_fails = False,
      write_fails = (\<lambda>k. False),
      close_fails = False,
      stored_bytes = 0,
      now_timestamp = ''1636000000.5'',
      str_timestamp = (\<lambda>t. t)\<rparr>"

definition sample_configuration :: dict where
  "sample_configuration =
     [(''Name'', PStr ''Gaming''),
      (''Path'', PStr ''Gaming''),
      (''Parameters'', PDict [(''dxvk'', PBool False), (''vkd3d'', PBool False)]),
      (''Installed_Dependencies'', PList [PStr ''dotnet48'']),
      (''Programs'', PDict [])]"

definition sample_executable :: dict where
  "sample_executable =
     [(''name'', PStr ''Game''), (''file'', PStr ''game.exe''), (''path'', PStr ''Program Files/Game''),
      (''icon'', PStr ''game.png'')]"

definition sample_manifest :: dict where
  "sample_manifest =
     [(''Name'', PStr ''Game''), (''Description'', PStr ''A game''),
      (''Executable'', PDict sample_executable)]"

text \<open>
  Four steps: two installers, a step with an action that is not an install action, and a
  third installer that is renamed and has arguments. With \<open>sample_env\<close> the second
  download (call number 1) fails.
\<close>

definition sample_steps :: "pyval list" where
  "sample_steps =
     [PDict [(''action'', PStr ''install_exe''), (''url'', PStr ''https://x/a.exe''),
             (''file_name'', PStr ''a.exe'')],
      PDict [(''action'', PStr ''install_msi''), (''url'', PStr ''https://x/b.msi''),
             (''file_name'', PStr ''b.msi'')],
      PDict [(''action'', PStr ''copy_file'')],
      PDict [(''action'', PStr ''install_exe''), (''url'', PStr ''https://x/c.exe''),
             (''file_name'', PStr ''c.exe''), (''rename'', PStr ''setup.exe''),
             (''arguments'', PStr ''/S'')]]"

text \<open>A manifest with dependencies, parameters, steps and an executable with arguments.\<close>

definition full_manifest :: dict where
  "full_manifest =
     [(''Name'', PStr ''Game''), (''Description'', PStr ''A game''),
      (''Dependencies'', PList [PStr ''dotnet48'', PStr ''vcredist2019'']),
      (''Parameters'', PDict [(''dxvk'', PBool True)]),
      (''Executable'', PDict (sample_executable @ [(''arguments'', PStr ''-fullscreen'')])),
      (''Steps'', PList sample_steps)]"

section \<open>Properties\<close>

subsection \<open>Events and traces\<close>

lemma events_since_append: "events_since w (w\<lparr>trace := trace w @ es\<rparr>) = es"
  by (simp add: events_since_def)

lemma count_list_app: "count_list (xs @ ys) a = count_list xs a + count_list ys a"
  by (induction xs) auto

subsection \<open>Applying parameters\<close>

lemma parameters_loop_trace:
  "set ks \<subseteq> fst ` set ps \<Longrightarrow>
   parameters_loop ps ks w =
     (Inr (), w\<lparr>trace := trace w @
        map (\<lambda>k. UpdateConfiguration (PStr k) (dict_get ps k) ''Parameters'') ks\<rparr>)"
proof (induction ks arbitrary: w)
  case Nil
  then show ?case by simp
next
  case (Cons k ks)
  from Cons.prems have "k \<in> fst ` set ps" by simp
  then obtain v where v: "map_of ps k = Some v"
    by (metis domIff dom_map_of_conv_image_fst not_Some_eq)
  from Cons.prems have "set ks \<subseteq> fst ` set ps" by simp
  from Cons.IH[OF this] v show ?case
    by (simp add: dict_get_def emit_def)
qed

text \<open>
  When neither check raises, \<^verbatim>\<open>__set_parameters\<close> calls the install routines that the
  checks select and then persists every key of the manifest's map, in the map's order.
\<close>

lemma set_parameters_trace:
  assumes "dxvk_condition configuration ps = Inr c1"
      and "vkd3d_condition configuration ps = Inr c2"
  shows "set_parameters configuration (PDict ps) w =
     (Inr (), w\<lparr>trace := trace w @ (if c1 then [InstallDxvk] else [])
        @ (if c2 then [InstallVkd3d] else [])
        @ map (\<lambda>k. UpdateConfiguration (PStr k) (dict_get ps k) ''Parameters'') (map fst ps)\<rparr>)"
  using assms by (simp add: set_parameters_def parameters_loop_trace emit_def Let_def)

lemma count_updates:
  "count_list (map (\<lambda>k. UpdateConfiguration (f k) (g k) s) ks) InstallDxvk = 0"
  by (induction ks) auto

text \<open>
  C1. The claim: when the manifest sets \<open>vkd3d\<close> to true and the configuration has it
  false, the vkd3d install routine is called, and it is not called when the toggle is
  already on. The source tests \<^verbatim>\<open>configuration.get("Parameters")["vkd3d"]\<close> without the
  \<^verbatim>\<open>not\<close> that the dxvk line above it has. Evaluated on a configuration with \<open>vkd3d\<close>
  false and the manifest map \<^verbatim>\<open>{"vkd3d": True}\<close>, the only call is the update of the
  configuration: the install routine is not called. On the same manifest map and a
  configuration with \<open>vkd3d\<close> already true, the install routine is called.
\<close>

theorem set_parameters_vkd3d_inverted:
  "events_since w (snd (set_parameters
      [(''Parameters'', PDict [(''dxvk'', PBool False), (''vkd3d'', PBool False)])]
      (PDict [(''vkd3d'', PBool True)]) w))
     = [UpdateConfiguration (PStr ''vkd3d'') (PBool True) ''Parameters''] \<and>
   events_since w (snd (set_parameters
      [(''Parameters'', PDict [(''dxvk'', PBool False), (''vkd3d'', PBool True)])]
      (PDict [(''vkd3d'', PBool True)]) w))
     = [InstallVkd3d, UpdateConfiguration (PStr ''vkd3d'') (PBool True) ''Parameters'']"
  by (simp add: set_parameters_def dxvk_condition_def vkd3d_condition_def dict_get_def
      emit_def events_since_def)

text \<open>
  C2. The claim: for every parameter map with \<open>dxvk = True\<close>, the dxvk install routine
  is called once when the configuration has \<open>dxvk\<close> false, and \<open>dxvk = True\<close> is then
  persisted. The check of vkd3d stands between the install and the persisting, and it
  reads the configuration by subscript. With the parameter map
  \<^verbatim>\<open>{"dxvk": True, "vkd3d": True}\<close> and a configuration whose \<open>Parameters\<close> are
  \<^verbatim>\<open>{"dxvk": False}\<close>, the dxvk install routine is called, the subscript raises
  \<^verbatim>\<open>KeyError\<close>, and nothing is persisted.
\<close>

theorem set_parameters_dxvk_not_persisted:
  "set_parameters [(''Parameters'', PDict [(''dxvk'', PBool False)])]
     (PDict [(''dxvk'', PBool True), (''vkd3d'', PBool True)]) empty_world
   = (Inl KeyError, empty_world\<lparr>trace := [InstallDxvk]\<rparr>)"
  by (simp add: set_parameters_def dxvk_condition_def vkd3d_condition_def dict_get_def
      emit_def empty_world_def)

text \<open>
  C2, as the code has it. Let the manifest's parameter map hold \<open>dxvk = True\<close>, and let
  the configuration's \<open>Parameters\<close> hold \<open>dxvk\<close> with the truth value \<open>enabled\<close>. Let
  the check of vkd3d not raise: the parameter map does not set \<open>vkd3d\<close> to a true value,
  or the configuration's \<open>Parameters\<close> have a \<open>vkd3d\<close> entry. Then applying the
  parameters returns normally; the dxvk install routine is called exactly once when
  \<open>enabled\<close> is false and not at all when it is true; and in both cases \<open>dxvk = True\<close>
  is persisted by \<^verbatim>\<open>update_configuration\<close> in the scope \<open>Parameters\<close>, after the call
  of the install routine when there is one.
\<close>

theorem set_parameters_dxvk:
  assumes p: "dict_get parameters ''dxvk'' = PBool True"
      and c: "py_subscript (dict_get configuration ''Parameters'') ''dxvk'' = Inr (PBool enabled)"
      and v: "\<not> truthy (dict_get parameters ''vkd3d'') \<or>
              py_subscript (dict_get configuration ''Parameters'') ''vkd3d'' = Inr v"
  shows "fst (set_parameters configuration (PDict parameters) w) = Inr () \<and>
         count_list (events_since w (snd (set_parameters configuration (PDict parameters) w)))
           InstallDxvk = (if enabled then 0 else 1) \<and>
         (\<exists>before after.
            events_since w (snd (set_parameters configuration (PDict parameters) w)) =
              before @ UpdateConfiguration (PStr ''dxvk'') (PBool True) ''Parameters'' # after \<and>
            (InstallDxvk \<in> set before) = (\<not> enabled))"
proof -
  let ?f = "\<lambda>k. UpdateConfiguration (PStr k) (dict_get parameters k) ''Parameters''"
  let ?c2 = "truthy (dict_get parameters ''vkd3d'') \<and> truthy v"
  let ?vk = "if ?c2 then [InstallVkd3d] else []"
  let ?dx = "if enabled then [] else [InstallDxvk]"
  have c1: "dxvk_condition configuration parameters = Inr (\<not> enabled)"
    using p c by (simp add: dxvk_condition_def)
  have c2: "vkd3d_condition configuration parameters = Inr ?c2"
    using v by (auto simp: vkd3d_condition_def)
  have run: "set_parameters configuration (PDict parameters) w =
               (Inr (), w\<lparr>trace := trace w @ ?dx @ ?vk @ map ?f (map fst parameters)\<rparr>)"
    using set_parameters_trace[OF c1 c2, of w] by simp
  then have ev: "events_since w (snd (set_parameters configuration (PDict parameters) w)) =
                   ?dx @ ?vk @ map ?f (map fst parameters)"
    by (simp add: events_since_append)
  from p have "map_of parameters ''dxvk'' = Some (PBool True)"
    by (simp add: dict_get_def split: option.splits)
  then have "''dxvk'' \<in> set (map fst parameters)"
    by (metis domI dom_map_of_conv_image_fst set_map)
  then obtain ks1 ks2 where ks: "map fst parameters = ks1 @ ''dxvk'' # ks2"
    by (meson split_list)
  have split: "?dx @ ?vk @ map ?f (map fst parameters) =
      (?dx @ ?vk @ map ?f ks1) @ UpdateConfiguration (PStr ''dxvk'') (PBool True) ''Parameters''
        # map ?f ks2"
    by (simp add: ks p)
  have mem: "(InstallDxvk \<in> set (?dx @ ?vk @ map ?f ks1)) = (\<not> enabled)"
    by auto
  have cnt: "count_list (?dx @ ?vk @ map ?f (map fst parameters)) InstallDxvk =
               (if enabled then 0 else 1)"
    by (simp add: count_list_app count_updates del: map_map)
  have a: "fst (set_parameters configuration (PDict parameters) w) = Inr ()"
    by (simp add: run)
  have b: "count_list (events_since w (snd (set_parameters configuration (PDict parameters) w)))
             InstallDxvk = (if enabled then 0 else 1)"
    by (simp only: ev cnt)
  have d: "\<exists>before after.
            events_since w (snd (set_parameters configuration (PDict parameters) w)) =
              before @ UpdateConfiguration (PStr ''dxvk'') (PBool True) ''Parameters'' # after \<and>
            (InstallDxvk \<in> set before) = (\<not> enabled)"
    unfolding ev split using mem by blast
  from a b d show ?thesis by blast
qed

text \<open>
  The two scenarios of the specification, on a configuration that holds \<open>dxvk\<close> alone,
  and a manifest that enables both toggles on a configuration that holds both.
\<close>

theorem set_parameters_dxvk_witness:
  "events_since empty_world
     (snd (set_parameters [(''Parameters'', PDict [(''dxvk'', PBool False)])]
             (PDict [(''dxvk'', PBool True)]) empty_world))
     = [InstallDxvk, UpdateConfiguration (PStr ''dxvk'') (PBool True) ''Parameters''] \<and>
   events_since empty_world
     (snd (set_parameters [(''Parameters'', PDict [(''dxvk'', PBool True)])]
             (PDict [(''dxvk'', PBool True)]) empty_world))
     = [UpdateConfiguration (PStr ''dxvk'') (PBool True) ''Parameters''] \<and>
   count_list (events_since empty_world
     (snd (set_parameters
             [(''Parameters'', PDict [(''dxvk'', PBool False), (''vkd3d'', PBool False)])]
             (PDict [(''dxvk'', PBool True), (''vkd3d'', PBool True)]) empty_world)))
     InstallDxvk = 1"
  using set_parameters_dxvk[of "[(''dxvk'', PBool True)]"
          "[(''Parameters'', PDict [(''dxvk'', PBool False)])]" False PNone empty_world]
        set_parameters_dxvk[of "[(''dxvk'', PBool True)]"
          "[(''Parameters'', PDict [(''dxvk'', PBool True)])]" True PNone empty_world]
        set_parameters_dxvk[of "[(''dxvk'', PBool True), (''vkd3d'', PBool True)]"
          "[(''Parameters'', PDict [(''dxvk'', PBool False), (''vkd3d'', PBool False)])]"
          False "PBool False" empty_world]
  by (simp add: dict_get_def set_parameters_def dxvk_condition_def vkd3d_condition_def
      emit_def events_since_def empty_world_def)

subsection \<open>Fetching the manifest\<close>

text \<open>
  C3. For every installer name and category, in every environment and state,
  \<^verbatim>\<open>get_installer\<close> returns a value and raises nothing. Without a connection it returns
  \<^verbatim>\<open>False\<close> at once: the state is unchanged, no URL is opened. With a connection, when
  opening the URL raises, or reading the response raises, or decoding (plain mode) or
  parsing (YAML mode) what was read raises, the result is \<^verbatim>\<open>False\<close> and the error is
  logged after the one attempt to open the URL.
\<close>

theorem get_installer_never_raises:
  "(\<exists>v. fst (get_installer env name category plain w) = Inr v) \<and>
   (\<not> check_connection env \<longrightarrow>
      get_installer env name category plain w = (Inr (PBool False), w)) \<and>
   (check_connection env \<and>
    (urlopen env (manifest_url env name category) = Inl e \<or>
     urlopen env (manifest_url env name category) = Inr (Inl e) \<or>
     (\<exists>raw. urlopen env (manifest_url env name category) = Inr (Inr raw) \<and>
        (if plain then decode_utf8 env raw = Inl e else yaml_safe_load env raw = Inl e)))
    \<longrightarrow> fst (get_installer env name category plain w) = Inr (PBool False) \<and>
        events_since w (snd (get_installer env name category plain w)) =
          [UrlOpen (manifest_url env name category),
           LogError (''Cannot fetch manifest for '' @ fmt env name @ ''.'')])"
proof (intro conjI impI)
  show "\<exists>v. fst (get_installer env name category plain w) = Inr v"
    by (simp add: get_installer_def Let_def split: sum.splits)
next
  assume "\<not> check_connection env"
  then show "get_installer env name category plain w = (Inr (PBool False), w)"
    by (simp add: get_installer_def)
next
  assume h: "check_connection env \<and>
    (urlopen env (manifest_url env name category) = Inl e \<or>
     urlopen env (manifest_url env name category) = Inr (Inl e) \<or>
     (\<exists>raw. urlopen env (manifest_url env name category) = Inr (Inr raw) \<and>
        (if plain then decode_utf8 env raw = Inl e else yaml_safe_load env raw = Inl e)))"
  then have f: "fetch_manifest env name category plain = Inl e"
    by (auto simp: fetch_manifest_def split: if_splits)
  from h f show "fst (get_installer env name category plain w) = Inr (PBool False)"
    by (simp add: get_installer_def Let_def)
  from h f show "events_since w (snd (get_installer env name category plain w)) =
          [UrlOpen (manifest_url env name category),
           LogError (''Cannot fetch manifest for '' @ fmt env name @ ''.'')]"
    by (simp add: get_installer_def Let_def emit_def events_since_def)
qed

theorem get_installer_never_raises_witness:
  "get_installer (sample_env\<lparr>check_connection := False\<rparr>) (PStr ''game'') (PStr ''Games'') False empty_world
     = (Inr (PBool False), empty_world) \<and>
   fst (get_installer (sample_env\<lparr>urlopen := (\<lambda>u. Inl URLError)\<rparr>) (PStr ''game'') (PStr ''Games'') False empty_world)
     = Inr (PBool False) \<and>
   events_since empty_world
     (snd (get_installer (sample_env\<lparr>urlopen := (\<lambda>u. Inl URLError)\<rparr>) (PStr ''game'') (PStr ''Games'') False empty_world))
     = [UrlOpen ''https://repo/installers/Games/game.yml'', LogError ''Cannot fetch manifest for game.'']"
  using get_installer_never_raises[of "sample_env\<lparr>check_connection := False\<rparr>" "PStr ''game''" "PStr ''Games''" False empty_world]
        get_installer_never_raises[of "sample_env\<lparr>urlopen := (\<lambda>u. Inl URLError)\<rparr>" "PStr ''game''" "PStr ''Games''" False empty_world URLError]
  by (simp add: sample_env_def manifest_url_def fmt_def)

subsection \<open>Installing dependencies\<close>

lemma py_eq_str: "py_eq a (PStr d) = (a = PStr d)"
  by (cases a) auto

lemma py_in_str_list: "py_in (PStr d) (PList installed) = Inr (PStr d \<in> set installed)"
  by (induction installed) (auto simp: py_eq_str)

lemma dependencies_loop_trace:
  assumes "dict_get configuration ''Installed_Dependencies'' = PList installed"
  shows "dependencies_loop env configuration (map PStr deps) w =
     (Inr (), w\<lparr>trace := trace w @
        map (\<lambda>d. AsyncInstallDependency (PStr d) (dict_get (supported_dependencies env) d))
          (filter (\<lambda>d. PStr d \<notin> set installed) deps)\<rparr>)"
proof (induction deps arbitrary: w)
  case Nil
  then show ?case by simp
next
  case (Cons d deps)
  show ?case
    by (simp add: assms py_in_str_list dict_get_val_def Cons.IH emit_def del: py_in.simps)
qed

text \<open>
  C4. Let the configuration's \<open>Installed_Dependencies\<close> be a list, and let the
  dependencies be a list of identifiers (strings). Then \<^verbatim>\<open>__install_dependencies\<close>
  returns normally, and the calls it makes are exactly one
  \<^verbatim>\<open>async_install_dependency\<close> per dependency that is not in the installed list, with
  the dependency's entry of the catalog (or \<^verbatim>\<open>None\<close>), in the order of the dependency
  list. A dependency that is in the installed list is not submitted.
\<close>

theorem install_dependencies_submits_missing:
  assumes "dict_get configuration ''Installed_Dependencies'' = PList installed"
  shows "install_dependencies env configuration (PList (map PStr deps)) w =
     (Inr (), w\<lparr>trace := trace w @
        map (\<lambda>d. AsyncInstallDependency (PStr d) (dict_get (supported_dependencies env) d))
          (filter (\<lambda>d. PStr d \<notin> set installed) deps)\<rparr>)"
  using dependencies_loop_trace[OF assms] by (simp add: install_dependencies_def)

theorem install_dependencies_submits_missing_witness:
  "install_dependencies sample_env sample_configuration
      (PList [PStr ''vcredist2019'', PStr ''dotnet48'', PStr ''d3dx9'']) empty_world =
     (Inr (), empty_world\<lparr>trace :=
        [AsyncInstallDependency (PStr ''vcredist2019'') (PDict [(''Description'', PStr ''runtime'')]),
         AsyncInstallDependency (PStr ''d3dx9'') PNone]\<rparr>)"
  using install_dependencies_submits_missing[of sample_configuration "[PStr ''dotnet48'']"
          sample_env "[''vcredist2019'', ''dotnet48'', ''d3dx9'']" empty_world]
  by (simp add: sample_configuration_def sample_env_def dict_get_def empty_world_def)

subsection \<open>Performing steps\<close>

lemma steps_loop_trace:
  "list_all has_action steps \<Longrightarrow>
   steps_loop env steps w =
     (Inr (), w\<lparr>trace := trace w @
        concat (map (\<lambda>(k, st). download_event st # (if download env k then [run_event env st] else []))
                 (enumerate (download_calls w) (map the_dict (filter is_install_step steps)))),
        download_calls := download_calls w + length (filter is_install_step steps)\<rparr>)"
proof (induction steps arbitrary: w)
  case Nil
  then show ?case by simp
next
  case (Cons step steps)
  from Cons.prems have rest: "list_all has_action steps" by simp
  from Cons.prems obtain d a where step: "step = PDict d" and a: "map_of d ''action'' = Some a"
    by (cases step) (auto simp: has_action_def split: option.splits)
  show ?case
  proof (cases "install_action a")
    case True
    then have i: "is_install_step step" by (simp add: is_install_step_def step a)
    show ?thesis
      using True i by (simp add: step a Cons.IH[OF rest] emit_def Let_def)
  next
    case False
    then have i: "\<not> is_install_step step" by (simp add: is_install_step_def step a)
    show ?thesis
      using False i by (simp add: step a Cons.IH[OF rest])
  qed
qed

text \<open>
  C5. Let every step be a dictionary with an action. Then \<^verbatim>\<open>__perform_steps\<close> returns
  normally, and its calls are, for each step with an install action and in the order of
  the step list, the download of the step's asset, followed by the launch of the
  downloaded file exactly when that download succeeded. The \<open>k\<close>-th install step gets
  the answer of the \<open>k\<close>-th download: a step whose download fails is not launched, and
  the steps after it are downloaded and launched as if it had not failed.
\<close>

theorem perform_steps_isolates_failures:
  assumes "list_all has_action steps"
  shows "perform_steps env configuration (PList steps) w =
     (Inr (), w\<lparr>trace := trace w @
        concat (map (\<lambda>(k, st). download_event st # (if download env k then [run_event env st] else []))
                 (enumerate (download_calls w) (map the_dict (filter is_install_step steps)))),
        download_calls := download_calls w + length (filter is_install_step steps)\<rparr>)"
  using steps_loop_trace[OF assms] by (simp add: perform_steps_def)

theorem perform_steps_isolates_failures_witness:
  "perform_steps sample_env sample_configuration (PList sample_steps) empty_world =
     (Inr (), empty_world\<lparr>trace :=
        [Download ''installer'' (PStr ''https://x/a.exe'') (PStr ''a.exe'') PNone PNone,
         RunExecutable ''/tmp/bottles/a.exe'' PNone PNone,
         Download ''installer'' (PStr ''https://x/b.msi'') (PStr ''b.msi'') PNone PNone,
         Download ''installer'' (PStr ''https://x/c.exe'') (PStr ''c.exe'') (PStr ''setup.exe'') PNone,
         RunExecutable ''/tmp/bottles/setup.exe'' (PStr ''/S'') PNone],
        download_calls := 3\<rparr>)"
  using perform_steps_isolates_failures[of sample_steps sample_env sample_configuration empty_world]
  by (simp add: sample_steps_def has_action_def is_install_step_def install_action_def
      sample_env_def empty_world_def download_event_def run_event_def dict_get_def fmt_def
      enumerate_eq_zip)

subsection \<open>Downloading the icon\<close>

lemma icon_path_neq: "icon_path env configuration executable \<noteq> bottle_icons_path env configuration"
  by (simp add: icon_path_def)

lemma retrieve_icon_events:
  "events_since w (snd (retrieve_icon env configuration executable manifest w)) =
     (if path_isfile w (icon_path env configuration executable) then []
      else [UrlRetrieve (icon_url env executable manifest) (icon_path env configuration executable)])"
  by (simp add: retrieve_icon_def Let_def leave_partial_def emit_def events_since_def
      split: sum.splits option.splits prod.splits)

lemma retrieve_icon_trace:
  "trace (snd (retrieve_icon env configuration executable manifest w)) =
     trace w @ events_since w (snd (retrieve_icon env configuration executable manifest w))"
  by (simp add: retrieve_icon_def Let_def leave_partial_def emit_def events_since_def
      split: sum.splits option.splits prod.splits)

lemma retrieve_icon_keeps_directory:
  "files (snd (retrieve_icon env configuration executable manifest w))
     (bottle_icons_path env configuration) = files w (bottle_icons_path env configuration)"
  using icon_path_neq[of env configuration executable]
  by (auto simp: retrieve_icon_def Let_def leave_partial_def emit_def
      split: sum.splits option.splits prod.splits)

lemma retrieve_icon_stores:
  "fst (retrieve_icon env configuration executable manifest w) = Inr () \<Longrightarrow>
   path_isfile (snd (retrieve_icon env configuration executable manifest w))
     (icon_path env configuration executable)"
  by (auto simp: retrieve_icon_def Let_def path_isfile_def
      split: sum.splits if_splits prod.splits)

text \<open>The three ways through \<^verbatim>\<open>__download_icon\<close>.\<close>

lemma download_icon_present:
  "path_exists w (bottle_icons_path env configuration) \<Longrightarrow>
   download_icon env configuration executable manifest w =
     retrieve_icon env configuration executable manifest w"
  by (simp add: download_icon_def and_then_def)

lemma download_icon_created:
  "\<not> path_exists w (bottle_icons_path env configuration) \<Longrightarrow>
   makedirs_error env (bottle_icons_path env configuration) = None \<Longrightarrow>
   download_icon env configuration executable manifest w =
     retrieve_icon env configuration executable manifest
       ((emit (MakeDirs (bottle_icons_path env configuration)) w)
          \<lparr>files := (files w)(bottle_icons_path env configuration \<mapsto> Dir)\<rparr>)"
  by (simp add: download_icon_def and_then_def makedirs_def)

lemma download_icon_not_created:
  "\<not> path_exists w (bottle_icons_path env configuration) \<Longrightarrow>
   makedirs_error env (bottle_icons_path env configuration) = Some e \<Longrightarrow>
   download_icon env configuration executable manifest w =
     (Inl e, emit (MakeDirs (bottle_icons_path env configuration)) w)"
  by (simp add: download_icon_def and_then_def makedirs_def)

text \<open>
  C6. When a regular file is already at the icon's destination path,
  \<^verbatim>\<open>__download_icon\<close> makes no call of \<^verbatim>\<open>urlretrieve\<close>. When the icons directory of
  the bottle does not exist, creating it is the first thing \<^verbatim>\<open>__download_icon\<close> does,
  before any download: if \<^verbatim>\<open>os.makedirs\<close> returns, the directory exists from then on;
  if it raises, its error is the outcome and nothing else is done, so that nothing is
  downloaded. And when \<^verbatim>\<open>__download_icon\<close> returns normally the icon is a regular file
  at its destination, so that a second call for the same path fetches nothing.
\<close>

theorem download_icon_cached:
  "(path_isfile w (icon_path env configuration executable) \<longrightarrow>
      (\<forall>u p. UrlRetrieve u p \<notin>
         set (events_since w (snd (download_icon env configuration executable manifest w))))) \<and>
   (\<not> path_exists w (bottle_icons_path env configuration) \<longrightarrow>
      (\<exists>rest. events_since w (snd (download_icon env configuration executable manifest w)) =
         MakeDirs (bottle_icons_path env configuration) # rest)) \<and>
   (\<not> path_exists w (bottle_icons_path env configuration) \<and>
    makedirs_error env (bottle_icons_path env configuration) = None \<longrightarrow>
      files (snd (download_icon env configuration executable manifest w))
        (bottle_icons_path env configuration) = Some Dir) \<and>
   (\<not> path_exists w (bottle_icons_path env configuration) \<and>
    makedirs_error env (bottle_icons_path env configuration) = Some e \<longrightarrow>
      download_icon env configuration executable manifest w =
        (Inl e, emit (MakeDirs (bottle_icons_path env configuration)) w)) \<and>
   (fst (download_icon env configuration executable manifest w) = Inr () \<longrightarrow>
      path_isfile (snd (download_icon env configuration executable manifest w))
        (icon_path env configuration executable))"
proof -
  let ?d = "bottle_icons_path env configuration"
  let ?i = "icon_path env configuration executable"
  let ?r = "download_icon env configuration executable manifest w"
  let ?w1 = "(emit (MakeDirs ?d) w)\<lparr>files := (files w)(?d \<mapsto> Dir)\<rparr>"
  have same: "path_isfile ?w1 ?i = path_isfile w ?i"
    using icon_path_neq[of env configuration executable] by (simp add: path_isfile_def)
  have t: "trace (snd (retrieve_icon env configuration executable manifest ?w1)) =
      (trace w @ [MakeDirs ?d]) @
        events_since ?w1 (snd (retrieve_icon env configuration executable manifest ?w1))"
    using retrieve_icon_trace[of env configuration executable manifest ?w1]
    by (simp add: emit_def)
  have "events_since w (snd (retrieve_icon env configuration executable manifest ?w1)) =
      drop (length (trace w)) (trace (snd (retrieve_icon env configuration executable manifest ?w1)))"
    by (simp add: events_since_def)
  also have "\<dots> = drop (length (trace w)) ((trace w @ [MakeDirs ?d]) @
        events_since ?w1 (snd (retrieve_icon env configuration executable manifest ?w1)))"
    by (simp only: t)
  also have "\<dots> =
      MakeDirs ?d # events_since ?w1 (snd (retrieve_icon env configuration executable manifest ?w1))"
    by simp
  finally have made:
    "events_since w (snd (retrieve_icon env configuration executable manifest ?w1)) =
      MakeDirs ?d # events_since ?w1 (snd (retrieve_icon env configuration executable manifest ?w1))" .
  have c1: "\<forall>u p. UrlRetrieve u p \<notin> set (events_since w (snd ?r))"
    if f: "path_isfile w ?i"
  proof (cases "path_exists w ?d")
    case True
    then show ?thesis
      using f by (simp add: download_icon_present retrieve_icon_events)
  next
    case False
    show ?thesis
    proof (cases "makedirs_error env ?d")
      case None
      with False f same show ?thesis
        by (simp add: download_icon_created made retrieve_icon_events)
    next
      case (Some e')
      with False show ?thesis
        by (simp add: download_icon_not_created emit_def events_since_def)
    qed
  qed
  have c2: "\<exists>rest. events_since w (snd ?r) = MakeDirs ?d # rest"
    if a: "\<not> path_exists w ?d"
  proof (cases "makedirs_error env ?d")
    case None
    with a show ?thesis
      by (simp add: download_icon_created made)
  next
    case (Some e')
    with a show ?thesis
      by (simp add: download_icon_not_created emit_def events_since_def)
  qed
  have c3: "files (snd ?r) ?d = Some Dir"
    if a: "\<not> path_exists w ?d \<and> makedirs_error env ?d = None"
    using a by (simp add: download_icon_created retrieve_icon_keeps_directory)
  have c4: "?r = (Inl e, emit (MakeDirs ?d) w)"
    if a: "\<not> path_exists w ?d \<and> makedirs_error env ?d = Some e"
    using a by (simp add: download_icon_not_created)
  have c5: "path_isfile (snd ?r) ?i" if ok: "fst ?r = Inr ()"
  proof (cases "path_exists w ?d")
    case True
    with ok show ?thesis
      by (simp add: download_icon_present retrieve_icon_stores)
  next
    case False
    show ?thesis
    proof (cases "makedirs_error env ?d")
      case None
      with False ok show ?thesis
        by (simp add: download_icon_created retrieve_icon_stores)
    next
      case (Some e')
      with False ok show ?thesis
        by (simp add: download_icon_not_created)
    qed
  qed
  from c1 c2 c3 c4 c5 show ?thesis by blast
qed

theorem download_icon_cached_witness:
  "events_since
     (empty_world\<lparr>files := [''/home/u/bottles/Gaming/icons'' \<mapsto> Dir,
                             ''/home/u/bottles/Gaming/icons/game.png'' \<mapsto> File ''png'']\<rparr>)
     (snd (download_icon sample_env sample_configuration sample_executable sample_manifest
        (empty_world\<lparr>files := [''/home/u/bottles/Gaming/icons'' \<mapsto> Dir,
                                ''/home/u/bottles/Gaming/icons/game.png'' \<mapsto> File ''png'']\<rparr>)))
     = [] \<and>
   events_since empty_world
     (snd (download_icon sample_env sample_configuration sample_executable sample_manifest empty_world))
     = [MakeDirs ''/home/u/bottles/Gaming/icons'',
        UrlRetrieve ''https://repo/installers/data/Game/game.png''
          ''/home/u/bottles/Gaming/icons/game.png''] \<and>
   path_isfile
     (snd (download_icon sample_env sample_configuration sample_executable sample_manifest empty_world))
     ''/home/u/bottles/Gaming/icons/game.png'' \<and>
   download_icon (sample_env\<lparr>makedirs_error := (\<lambda>p. Some OSError)\<rparr>) sample_configuration
       sample_executable sample_manifest empty_world
     = (Inl OSError, empty_world\<lparr>trace := [MakeDirs ''/home/u/bottles/Gaming/icons'']\<rparr>)"
  using download_icon_cached[of
          "empty_world\<lparr>files := [''/home/u/bottles/Gaming/icons'' \<mapsto> Dir,
                                  ''/home/u/bottles/Gaming/icons/game.png'' \<mapsto> File ''png'']\<rparr>"
          sample_env sample_configuration sample_executable sample_manifest]
        download_icon_cached[of empty_world
          sample_env sample_configuration sample_executable sample_manifest]
        download_icon_cached[of empty_world
          "sample_env\<lparr>makedirs_error := (\<lambda>p. Some OSError)\<rparr>" sample_configuration
          sample_executable sample_manifest OSError]
  by (simp add: path_isfile_def path_exists_def icon_path_def icon_url_def
      bottle_icons_path_def sample_env_def sample_configuration_def sample_executable_def
      sample_manifest_def dict_get_def fmt_def empty_world_def download_icon_def
      retrieve_icon_def and_then_def Let_def makedirs_def emit_def events_since_def)

subsection \<open>Creating the desktop entry\<close>

lemma writes_done_0: "writes_done env k 0 = 0"
  by (simp add: writes_done_def)

lemma upt_from: "[k..<Suc (k + n)] = k # [Suc k..<Suc (k + n)]"
  by (rule upt_conv_Cons) simp

lemma writes_done_Suc:
  "writes_done env k (Suc n) = (if write_fails env k then 0 else Suc (writes_done env (Suc k) n))"
  by (simp add: writes_done_def upt_from del: upt_Suc)

text \<open>
  The writes return up to the first one that raises; the text handed to the file is
  that of the writes that returned and of the one that raised.
\<close>

lemma write_all_result:
  "write_all env k ls buf =
     (writes_done env k (length ls) = length ls,
      buf @ concat (take (Suc (writes_done env k (length ls))) ls))"
proof (induction ls arbitrary: k buf)
  case Nil
  then show ?case by (simp add: writes_done_0)
next
  case (Cons s ss)
  show ?case
  proof (cases "write_fails env k")
    case True
    then show ?thesis by (simp add: writes_done_Suc)
  next
    case False
    then show ?thesis by (simp add: writes_done_Suc Cons.IH)
  qed
qed

lemma take_concat_take:
  "take a (concat (take b ls)) = take (min a (length (concat (take b ls)))) (concat ls)"
proof -
  let ?xs = "concat (take b ls)"
  have "concat ls = ?xs @ concat (drop b ls)"
    by (metis append_take_drop_id concat_append)
  then have "take (min a (length ?xs)) (concat ls) = take (min a (length ?xs)) ?xs"
    by (metis min.cobounded2 take_all_iff take_append append_Nil2 diff_is_0_eq take_0)
  also have "\<dots> = take a ?xs"
    by (simp add: min_def)
  finally show ?thesis by simp
qed

text \<open>
  C7. The claim: when writing the desktop entry fails, no partially written file is left
  at the destination. In the source the file is opened with
  \<^verbatim>\<open>with open(desktop_file, "w")\<close>, which closes the file on the way out and removes
  nothing. In the sample environment, let the file system take twenty bytes and no more:
  every \<^verbatim>\<open>f.write\<close> returns, closing the file raises, and the destination holds the
  first line and the first four characters of the second.
\<close>

theorem create_desktop_entry_partial_file:
  "fst (create_desktop_entry (sample_env\<lparr>close_fails := True, stored_bytes := 20\<rparr>)
          sample_configuration sample_manifest sample_executable empty_world) = Inl OSError \<and>
   files (snd (create_desktop_entry (sample_env\<lparr>close_fails := True, stored_bytes := 20\<rparr>)
          sample_configuration sample_manifest sample_executable empty_world))
      ''/home/u/.local/share/applications/Gaming--Game--1636000000.5.desktop''
     = Some (File (''[Desktop Entry]'' @ newline @ ''Name''))"
  by (simp add: create_desktop_entry_def close_file_def Let_def sample_env_def
      sample_configuration_def sample_manifest_def sample_executable_def empty_world_def
      desktop_file_def entry_lines_def fmt_def dict_get_def open_w_def emit_def newline_def)

text \<open>
  C7, as the code has it. Outside the sandbox and when the file can be opened,
  \<^verbatim>\<open>__create_desktop_entry\<close> opens the destination and closes it again, on every way
  out, and makes no other call. It returns normally exactly when every write returns and
  the close succeeds, and the destination then holds the whole entry. Otherwise the
  error reaches the caller and the destination file stays, holding the bytes that had
  reached it: a prefix of the entry, which may end in the middle of a line. Nothing
  removes it.
\<close>

theorem create_desktop_entry_keeps_written_prefix:
  assumes "''FLATPAK_ID'' \<notin> set (environ env)" and "\<not> open_fails env"
  shows "fst (create_desktop_entry env configuration manifest executable w) =
           (if writes_done env 0 (length (entry_lines env configuration manifest executable))
                 = length (entry_lines env configuration manifest executable)
               \<and> \<not> close_fails env
            then Inr () else Inl OSError) \<and>
         (\<exists>n. files (snd (create_desktop_entry env configuration manifest executable w))
                 (desktop_file env configuration manifest (now_timestamp env)) =
               Some (File (take n (concat (entry_lines env configuration manifest executable))))) \<and>
         (fst (create_desktop_entry env configuration manifest executable w) = Inr () \<longrightarrow>
            files (snd (create_desktop_entry env configuration manifest executable w))
                 (desktop_file env configuration manifest (now_timestamp env)) =
               Some (File (concat (entry_lines env configuration manifest executable)))) \<and>
         events_since w (snd (create_desktop_entry env configuration manifest executable w)) =
           [FileOpened (desktop_file env configuration manifest (now_timestamp env)),
            FileClosed (desktop_file env configuration manifest (now_timestamp env))]"
proof -
  let ?p = "desktop_file env configuration manifest (now_timestamp env)"
  let ?ls = "entry_lines env configuration manifest executable"
  let ?n = "writes_done env 0 (length ?ls)"
  let ?buf = "concat (take (Suc ?n) ?ls)"
  let ?r = "create_desktop_entry env configuration manifest executable w"
  have run: "?r = close_file env ?p (?n = length ?ls, ?buf) (open_w ?p w)"
    using assms by (simp add: create_desktop_entry_def Let_def write_all_result)
  show ?thesis
  proof (cases "?n = length ?ls \<and> \<not> close_fails env")
    case True
    then have whole: "?buf = concat ?ls" by simp
    have r: "?r = (Inr (), emit (FileClosed ?p) ((open_w ?p w)\<lparr>files := (files (open_w ?p w))
                       (?p \<mapsto> File (concat ?ls))\<rparr>))"
      using True by (simp add: run close_file_def whole)
    have f: "files (snd ?r) ?p = Some (File (concat ?ls))"
      by (simp add: r emit_def)
    have "files (snd ?r) ?p = Some (File (take (length (concat ?ls)) (concat ?ls)))"
      by (simp add: f)
    then have ex: "\<exists>n. files (snd ?r) ?p = Some (File (take n (concat ?ls)))" ..
    have ev: "events_since w (snd ?r) = [FileOpened ?p, FileClosed ?p]"
      by (simp add: r open_w_def emit_def events_since_def)
    from True r f ex ev show ?thesis by simp
  next
    case False
    have r: "?r = (Inl OSError, emit (FileClosed ?p) ((open_w ?p w)\<lparr>files := (files (open_w ?p w))
                       (?p \<mapsto> File (take (stored_bytes env) ?buf))\<rparr>))"
      using False by (auto simp: run close_file_def)
    have "files (snd ?r) ?p = Some (File (take (stored_bytes env) ?buf))"
      by (simp add: r emit_def)
    then have "files (snd ?r) ?p =
        Some (File (take (min (stored_bytes env) (length ?buf)) (concat ?ls)))"
      by (simp only: take_concat_take[of "stored_bytes env" "Suc ?n" ?ls])
    then have ex: "\<exists>n. files (snd ?r) ?p = Some (File (take n (concat ?ls)))" ..
    have ev: "events_since w (snd ?r) = [FileOpened ?p, FileClosed ?p]"
      by (simp add: r open_w_def emit_def events_since_def)
    have fs: "fst ?r = Inl OSError" by (simp add: r)
    from False fs ex ev show ?thesis by auto
  qed
qed

theorem create_desktop_entry_keeps_written_prefix_witness:
  "fst (create_desktop_entry (sample_env\<lparr>write_fails := (\<lambda>k. k = 2), stored_bytes := 5\<rparr>)
          sample_configuration sample_manifest sample_executable empty_world) = Inl OSError \<and>
   events_since empty_world
     (snd (create_desktop_entry (sample_env\<lparr>write_fails := (\<lambda>k. k = 2), stored_bytes := 5\<rparr>)
          sample_configuration sample_manifest sample_executable empty_world))
     = [FileOpened ''/home/u/.local/share/applications/Gaming--Game--1636000000.5.desktop'',
        FileClosed ''/home/u/.local/share/applications/Gaming--Game--1636000000.5.desktop''] \<and>
   fst (create_desktop_entry sample_env
          sample_configuration sample_manifest sample_executable empty_world) = Inr () \<and>
   files (snd (create_desktop_entry sample_env
          sample_configuration sample_manifest sample_executable empty_world))
      ''/home/u/.local/share/applications/Gaming--Game--1636000000.5.desktop''
     = Some (File (concat (entry_lines sample_env sample_configuration sample_manifest
                             sample_executable)))"
  using create_desktop_entry_keeps_written_prefix[of
          "sample_env\<lparr>write_fails := (\<lambda>k. k = 2), stored_bytes := 5\<rparr>"
          sample_configuration sample_manifest sample_executable empty_world]
        create_desktop_entry_keeps_written_prefix[of sample_env
          sample_configuration sample_manifest sample_executable empty_world]
  by (simp add: sample_env_def sample_configuration_def
      sample_manifest_def sample_executable_def desktop_file_def entry_lines_def
      fmt_def dict_get_def writes_done_def upt_conv_Cons)

text \<open>
  C8. When \<^verbatim>\<open>FLATPAK_ID\<close> is in the process environment, \<^verbatim>\<open>__create_desktop_entry\<close>
  returns normally and changes nothing: no file is created, no call is made.
\<close>

theorem create_desktop_entry_flatpak:
  assumes "''FLATPAK_ID'' \<in> set (environ env)"
  shows "create_desktop_entry env configuration manifest executable w = (Inr (), w)"
  using assms by (simp add: create_desktop_entry_def Let_def)

theorem create_desktop_entry_flatpak_witness:
  "create_desktop_entry (sample_env\<lparr>environ := [''HOME'', ''FLATPAK_ID'']\<rparr>) sample_configuration
      sample_manifest sample_executable empty_world = (Inr (), empty_world)"
  using create_desktop_entry_flatpak[of "sample_env\<lparr>environ := [''HOME'', ''FLATPAK_ID'']\<rparr>"
      sample_configuration sample_manifest sample_executable empty_world]
  by (simp add: sample_env_def)

text \<open>
  C9. The path of the desktop entry, which \<^verbatim>\<open>__create_desktop_entry\<close> opens, is the
  applications directory, a slash, the name of the bottle, two dashes, the name of the
  manifest, two dashes, the text of the timestamp, and \<^verbatim>\<open>.desktop\<close>. Distinct
  timestamps have distinct texts (Python's \<^verbatim>\<open>str\<close> of a floating point number
  determines the number). So for one bottle and two manifests of the same name, the
  paths made at two different timestamps are different.
\<close>

theorem desktop_file_distinct:
  assumes "inj (str_timestamp env)"
      and "dict_get manifest1 ''Name'' = dict_get manifest2 ''Name''"
      and "t1 \<noteq> t2"
  shows "(dict_get configuration ''Name'' = PStr bottle \<and> dict_get manifest1 ''Name'' = PStr name \<longrightarrow>
            desktop_file env configuration manifest1 t1 =
              path_applications env @ ''/'' @ bottle @ ''--'' @ name @ ''--''
                @ str_timestamp env t1 @ ''.desktop'') \<and>
         desktop_file env configuration manifest1 t1 \<noteq> desktop_file env configuration manifest2 t2"
proof (intro conjI impI)
  assume "dict_get configuration ''Name'' = PStr bottle \<and> dict_get manifest1 ''Name'' = PStr name"
  then show "desktop_file env configuration manifest1 t1 =
              path_applications env @ ''/'' @ bottle @ ''--'' @ name @ ''--''
                @ str_timestamp env t1 @ ''.desktop''"
    by (simp add: desktop_file_def fmt_def)
next
  show "desktop_file env configuration manifest1 t1 \<noteq> desktop_file env configuration manifest2 t2"
  proof
    assume "desktop_file env configuration manifest1 t1 = desktop_file env configuration manifest2 t2"
    then have "str_timestamp env t1 = str_timestamp env t2"
      using assms(2) by (simp add: desktop_file_def)
    with assms(1) have "t1 = t2" by (simp add: inj_eq)
    with assms(3) show False by simp
  qed
qed

theorem desktop_file_distinct_witness:
  "desktop_file sample_env sample_configuration sample_manifest ''1636000000.5'' =
     ''/home/u/.local/share/applications/Gaming--Game--1636000000.5.desktop'' \<and>
   desktop_file sample_env sample_configuration sample_manifest ''1636000000.5'' \<noteq>
   desktop_file sample_env sample_configuration sample_manifest ''1636000001.25''"
proof -
  have i: "inj (str_timestamp sample_env)"
    by (simp add: sample_env_def inj_def)
  have t: "''1636000000.5'' \<noteq> ''1636000001.25''" by simp
  show ?thesis
    using desktop_file_distinct[OF i refl t, of sample_configuration "''Gaming''" sample_manifest "''Game''"]
    by (simp add: sample_configuration_def sample_manifest_def dict_get_def sample_env_def
        desktop_file_def fmt_def)
qed

subsection \<open>The installation as a whole\<close>

text \<open>
  An installation that goes through: the manifest is fetched, the icon downloaded, the
  missing dependency submitted, the steps performed (the second download fails), dxvk
  installed and persisted, the arguments registered, the desktop entry written, and the
  widget's callback scheduled.
\<close>

lemma async_install_sample_run:
  "fst (async_install (sample_env\<lparr>yaml_safe_load := (\<lambda>b. Inr (PDict full_manifest))\<rparr>)
         sample_configuration (PStr ''game'', PDict [(''Category'', PStr ''Games'')]) True empty_world)
     = Inr () \<and>
   trace (snd (async_install (sample_env\<lparr>yaml_safe_load := (\<lambda>b. Inr (PDict full_manifest))\<rparr>)
         sample_configuration (PStr ''game'', PDict [(''Category'', PStr ''Games'')]) True empty_world))
     = [UrlOpen ''https://repo/installers/Games/game.yml'',
        MakeDirs ''/home/u/bottles/Gaming/icons'',
        UrlRetrieve ''https://repo/installers/data/Game/game.png''
          ''/home/u/bottles/Gaming/icons/game.png'',
        AsyncInstallDependency (PStr ''vcredist2019'') (PDict [(''Description'', PStr ''runtime'')]),
        Download ''installer'' (PStr ''https://x/a.exe'') (PStr ''a.exe'') PNone PNone,
        RunExecutable ''/tmp/bottles/a.exe'' PNone PNone,
        Download ''installer'' (PStr ''https://x/b.msi'') (PStr ''b.msi'') PNone PNone,
        Download ''installer'' (PStr ''https://x/c.exe'') (PStr ''c.exe'') (PStr ''setup.exe'') PNone,
        RunExecutable ''/tmp/bottles/setup.exe'' (PStr ''/S'') PNone,
        InstallDxvk,
        UpdateConfiguration (PStr ''dxvk'') (PBool True) ''Parameters'',
        UpdateConfiguration (PStr ''game.exe'') (PStr ''-fullscreen'') ''Programs'',
        FileOpened ''/home/u/.local/share/applications/Gaming--Game--1636000000.5.desktop'',
        FileClosed ''/home/u/.local/share/applications/Gaming--Game--1636000000.5.desktop'',
        IdleAdd]"
  by (simp add: async_install_def get_installer_def fetch_manifest_def install_body_def and_then_def
      download_icon_def install_dependencies_def perform_steps_def set_parameters_def
      set_executable_arguments_def create_desktop_entry_def
      full_manifest_def sample_env_def sample_configuration_def sample_executable_def
      sample_steps_def empty_world_def manifest_url_def fmt_def dict_get_def dict_get_val_def
      emit_def Let_def path_exists_def path_isfile_def makedirs_def retrieve_icon_def
      close_file_def bottle_icons_path_def
      icon_path_def icon_url_def install_action_def download_event_def run_event_def
      dxvk_condition_def vkd3d_condition_def desktop_file_def entry_lines_def open_w_def)

text \<open>
  C10. Let the installer's catalog entry have a category, and let \<^verbatim>\<open>get_installer\<close>
  return \<^verbatim>\<open>False\<close>. Then \<^verbatim>\<open>__async_install\<close> raises \<^verbatim>\<open>AttributeError\<close> (at
  \<^verbatim>\<open>manifest.get("Dependencies")\<close>) and ends in the state in which the fetch ended: the
  file system and the count of downloads are those of the start, and the only events are
  those of the fetch, the opening of the manifest's URL and the logged error. No icon
  is downloaded, no dependency submitted, no step performed, no configuration updated,
  no desktop entry written, and the widget's callback is not scheduled.
\<close>

theorem async_install_unavailable:
  assumes "py_subscript (snd installer) ''Category'' = Inr category"
      and "fst (get_installer env (fst installer) category False w) = Inr (PBool False)"
  shows "fst (async_install env configuration installer has_widget w) = Inl AttributeError \<and>
         snd (async_install env configuration installer has_widget w) =
           snd (get_installer env (fst installer) category False w) \<and>
         files (snd (async_install env configuration installer has_widget w)) = files w \<and>
         download_calls (snd (async_install env configuration installer has_widget w)) = download_calls w \<and>
         set (events_since w (snd (async_install env configuration installer has_widget w)))
           \<subseteq> {UrlOpen (manifest_url env (fst installer) category),
               LogError (''Cannot fetch manifest for '' @ fmt env (fst installer) @ ''.'')}"
proof -
  obtain r w1 where g: "get_installer env (fst installer) category False w = (r, w1)"
    by (cases "get_installer env (fst installer) category False w")
  with assms(2) have r: "r = Inr (PBool False)" by simp
  have run: "async_install env configuration installer has_widget w = (Inl AttributeError, w1)"
    by (simp add: async_install_def assms(1) g r)
  have w1: "w1 = w \<or> w1 = emit (UrlOpen (manifest_url env (fst installer) category)) w \<or>
            w1 = emit (LogError (''Cannot fetch manifest for '' @ fmt env (fst installer) @ ''.''))
                 (emit (UrlOpen (manifest_url env (fst installer) category)) w)"
    using g r by (auto simp: get_installer_def Let_def split: if_splits sum.splits)
  show ?thesis
    using w1 by (auto simp: run g emit_def events_since_def)
qed

theorem async_install_unavailable_witness:
  "fst (async_install (sample_env\<lparr>check_connection := False\<rparr>) sample_configuration
         (PStr ''game'', PDict [(''Category'', PStr ''Games'')]) True empty_world) = Inl AttributeError \<and>
   snd (async_install (sample_env\<lparr>check_connection := False\<rparr>) sample_configuration
         (PStr ''game'', PDict [(''Category'', PStr ''Games'')]) True empty_world) = empty_world"
  using async_install_unavailable[of "(PStr ''game'', PDict [(''Category'', PStr ''Games'')])"
          "PStr ''Games''" "sample_env\<lparr>check_connection := False\<rparr>" empty_world sample_configuration True]
  by (simp add: get_installer_def sample_env_def)

end
